theory Spec2Isabelle
  imports Main "HOL-Library.Multiset"
begin

section \<open>Values and exceptions\<close>

text \<open>
  The program is Python: a field holds whatever value was stored in it, and the annotations
  of the constructors (\<^verbatim>\<open>title: str\<close>, \<^verbatim>\<open>start_time: int\<close>) are not enforced.
  The values that reach the Library come from the text entries of the window, from the dictionaries
  of the video back end and from the JSON document, so a value is one of JSON's: \<open>None\<close>,
  a boolean, an integer, a string, a list or a dictionary with string keys. Floating point
  numbers are left out. A string is a list of characters, each a code point below 256.

  A dictionary is an association list in insertion order whose keys are distinct, which is
  what Python's \<^verbatim>\<open>dict\<close> and \<^verbatim>\<open>json.load\<close> give.
\<close>

datatype json =
    JNull
  | JBool bool
  | JInt int
  | JStr string
  | JArr "json list"
  | JObj "(string \<times> json) list"

text \<open>The exceptions the modelled code can raise.\<close>

datatype error =
    KeyError
  | TypeError
  | AttributeError
  | IndexError
  | ZeroDivisionError
  | BackendError \<comment> \<open>whatever the video back end or the HTTP client raises\<close>

text \<open>\<^verbatim>\<open>data[key]\<close> for a string key: only a dictionary can be subscripted by a string.\<close>

definition subscript :: "json \<Rightarrow> string \<Rightarrow> error + json" where
  "subscript data key =
     (case data of
        JObj d \<Rightarrow> (case map_of d key of None \<Rightarrow> Inl KeyError | Some v \<Rightarrow> Inr v)
      | _ \<Rightarrow> Inl TypeError)"

text \<open>\<^verbatim>\<open>data.get(key, default)\<close>: only a dictionary has the method.\<close>

definition dict_get :: "json \<Rightarrow> string \<Rightarrow> json \<Rightarrow> error + json" where
  "dict_get data key dflt =
     (case data of
        JObj d \<Rightarrow> (case map_of d key of None \<Rightarrow> Inr dflt | Some v \<Rightarrow> Inr v)
      | _ \<Rightarrow> Inl AttributeError)"

text \<open>
  \<^verbatim>\<open>for x in v\<close>: a list gives its elements, a dictionary its keys, a string its
  characters as one-character strings; nothing else can be iterated.
\<close>

definition iterate :: "json \<Rightarrow> error + json list" where
  "iterate v =
     (case v of
        JArr xs \<Rightarrow> Inr xs
      | JObj d \<Rightarrow> Inr (map (\<lambda>kv. JStr (fst kv)) d)
      | JStr s \<Rightarrow> Inr (map (\<lambda>c. JStr [c]) s)
      | _ \<Rightarrow> Inl TypeError)"

text \<open>
  A list comprehension \<^verbatim>\<open>[f(x) for x in xs]\<close> whose body can raise: the elements are
  evaluated in order and the first exception ends the comprehension.
\<close>

fun comprehension :: "('a \<Rightarrow> error + 'b) \<Rightarrow> 'a list \<Rightarrow> error + 'b list" where
  "comprehension f [] = Inr []"
| "comprehension f (x # xs) =
     (case f x of
        Inl e \<Rightarrow> Inl e
      | Inr y \<Rightarrow> (case comprehension f xs of Inl e \<Rightarrow> Inl e | Inr ys \<Rightarrow> Inr (y # ys)))"

text \<open>
  \<^verbatim>\<open>d[key] = value\<close> on a dictionary: an existing key keeps its place and takes the new
  value, a new key goes to the end.
\<close>

fun dict_set :: "('k \<times> 'v) list \<Rightarrow> 'k \<Rightarrow> 'v \<Rightarrow> ('k \<times> 'v) list" where
  "dict_set [] k v = [(k, v)]"
| "dict_set (kv # d) k v = (if fst kv = k then (k, v) # d else kv # dict_set d k v)"

text \<open>A dictionary built from a sequence of items, as a dict comprehension builds it.\<close>

definition dict_of_items :: "('k \<times> 'v) list \<Rightarrow> ('k \<times> 'v) list" where
  "dict_of_items items = foldl (\<lambda>d kv. dict_set d (fst kv) (snd kv)) [] items"


section \<open>Track and Playlist\<close>

record Track =
  title :: json
  url :: json
  video_id :: json
  start_time :: json

record Playlist =
  name :: json
  tracks :: "Track list"

text \<open>\<^verbatim>\<open>Track.to_dict\<close>\<close>

definition Track_to_dict :: "Track \<Rightarrow> json" where
  "Track_to_dict t =
     JObj [(''title'', title t), (''url'', url t),
           (''video_id'', video_id t), (''start_time'', start_time t)]"

text \<open>
  \<^verbatim>\<open>Track.from_dict\<close>: the arguments of the constructor are evaluated from left to
  right, \<^verbatim>\<open>data['title']\<close>, \<^verbatim>\<open>data['url']\<close>, \<^verbatim>\<open>data.get('video_id', '')\<close>,
  \<^verbatim>\<open>data.get('start_time', 0)\<close>.
\<close>

definition Track_from_dict :: "json \<Rightarrow> error + Track" where
  "Track_from_dict data =
     (case subscript data ''title'' of
        Inl e \<Rightarrow> Inl e
      | Inr t \<Rightarrow>
     (case subscript data ''url'' of
        Inl e \<Rightarrow> Inl e
      | Inr u \<Rightarrow>
     (case dict_get data ''video_id'' (JStr '''') of
        Inl e \<Rightarrow> Inl e
      | Inr v \<Rightarrow>
     (case dict_get data ''start_time'' (JInt 0) of
        Inl e \<Rightarrow> Inl e
      | Inr s \<Rightarrow> Inr \<lparr>title = t, url = u, video_id = v, start_time = s\<rparr>))))"

text \<open>\<^verbatim>\<open>Playlist.add_track\<close>\<close>

definition add_track :: "Playlist \<Rightarrow> Track \<Rightarrow> Playlist" where
  "add_track p t = p\<lparr>tracks := tracks p @ [t]\<rparr>"

text \<open>
  \<^verbatim>\<open>list.pop(i)\<close>: a negative index counts from the end; an index outside the list
  raises IndexError; otherwise the element at the index leaves and the others keep their
  order.
\<close>

definition pop :: "'a list \<Rightarrow> int \<Rightarrow> error + 'a list" where
  "pop xs i =
     (let n = int (length xs);
          j = (if i < 0 then i + n else i)
      in if 0 \<le> j \<and> j < n
         then Inr (take (nat j) xs @ drop (Suc (nat j)) xs)
         else Inl IndexError)"

text \<open>
  \<^verbatim>\<open>Playlist.remove_track\<close>: the index is a Python integer; \<^verbatim>\<open>pop\<close> is called
  under the guard \<^verbatim>\<open>0 <= index < len(self.tracks)\<close> only.
\<close>

definition remove_track :: "Playlist \<Rightarrow> int \<Rightarrow> error + Playlist" where
  "remove_track p index =
     (if 0 \<le> index \<and> index < int (length (tracks p))
      then (case pop (tracks p) index of
              Inl e \<Rightarrow> Inl e
            | Inr ts \<Rightarrow> Inr (p\<lparr>tracks := ts\<rparr>))
      else Inr p)"

text \<open>\<^verbatim>\<open>Playlist.to_dict\<close>\<close>

definition Playlist_to_dict :: "Playlist \<Rightarrow> json" where
  "Playlist_to_dict p =
     JObj [(''name'', name p), (''tracks'', JArr (map Track_to_dict (tracks p)))]"

text \<open>
  \<^verbatim>\<open>Playlist.from_dict\<close>: the tracks are read first, then \<^verbatim>\<open>data['name']\<close>. The
  constructor's \<^verbatim>\<open>tracks or []\<close> keeps a non-empty list and replaces an empty one by
  an empty one.
\<close>

definition Playlist_from_dict :: "json \<Rightarrow> error + Playlist" where
  "Playlist_from_dict data =
     (case dict_get data ''tracks'' (JArr []) of
        Inl e \<Rightarrow> Inl e
      | Inr ts \<Rightarrow>
     (case iterate ts of
        Inl e \<Rightarrow> Inl e
      | Inr items \<Rightarrow>
     (case comprehension Track_from_dict items of
        Inl e \<Rightarrow> Inl e
      | Inr trs \<Rightarrow>
     (case subscript data ''name'' of
        Inl e \<Rightarrow> Inl e
      | Inr n \<Rightarrow> Inr \<lparr>name = n, tracks = trs\<rparr>))))"


section \<open>Strings\<close>

text \<open>
  \<^verbatim>\<open>str.isspace\<close> on one character, for the code points below 256: tab, line feed,
  vertical tab, form feed, carriage return, the four separators 28 to 31, space, next line
  (133) and no-break space (160).
\<close>

definition isspace :: "char \<Rightarrow> bool" where
  "isspace c = (of_char c \<in> set [9, 10, 11, 12, 13, 28, 29, 30, 31, 32, 133, 160 :: nat])"

text \<open>\<^verbatim>\<open>s.strip()\<close>: the white space at both ends is removed.\<close>

definition strip :: "string \<Rightarrow> string" where
  "strip s = rev (dropWhile isspace (rev (dropWhile isspace s)))"

text \<open>
  \<^verbatim>\<open>s.split(sep)\<close> for a separator of one character: the pieces between the
  occurrences of the separator, of which there is always at least one.
\<close>

fun split_on :: "char \<Rightarrow> string \<Rightarrow> string list" where
  "split_on sep [] = [[]]"
| "split_on sep (c # cs) =
     (if c = sep then [] # split_on sep cs
      else (case split_on sep cs of
              [] \<Rightarrow> [[c]]
            | piece # pieces \<Rightarrow> (c # piece) # pieces))"

text \<open>\<^verbatim>\<open>xs[i]\<close> for an index that is not negative.\<close>

definition item :: "'a list \<Rightarrow> nat \<Rightarrow> error + 'a" where
  "item xs i = (if i < length xs then Inr (xs ! i) else Inl IndexError)"

fun startswith :: "string \<Rightarrow> string \<Rightarrow> bool" where
  "startswith s [] = True"
| "startswith [] (p # ps) = False"
| "startswith (c # cs) (p # ps) = (c = p \<and> startswith cs ps)"

text \<open>\<^verbatim>\<open>sub in s\<close> for strings: \<open>sub\<close> occurs in \<open>s\<close> as a contiguous piece.\<close>

fun contains :: "string \<Rightarrow> string \<Rightarrow> bool" where
  "contains [] sub = (sub = [])"
| "contains (c # cs) sub = (startswith (c # cs) sub \<or> contains cs sub)"


section \<open>The window: dialogs and the list of tracks\<close>

text \<open>
  What a handler shows in a message box, by the place that shows it, and \<open>Unhandled\<close> for an
  exception that leaves the handler. A handler returns \<open>Inl\<close> of the message when it stops
  there, and \<open>Inr\<close> of the new state when it runs to its end or returns silently. What a
  handler wrote before an exception stays written; the result \<open>Inl\<close> does not carry it.
\<close>

datatype message =
    Select_playlist_first
  | Enter_url
  | Url_not_youtube
  | Ytdlp_missing
  | Add_url_failed error
  | No_tracks
  | Select_track
  | Create_folder_first
  | Enter_playlist_name
  | Playlist_exists
  | Unhandled error

text \<open>
  The Tk list box \<^verbatim>\<open>tracks_list\<close>: the number of its rows and the indices selected, in
  increasing order as \<^verbatim>\<open>curselection()\<close> returns them. The text of a row is not
  modelled. \<^verbatim>\<open>selection_set(i)\<close> selects row \<open>i\<close> when the box has such a row and
  does nothing otherwise.
\<close>

record listbox =
  rows :: nat
  selected :: "nat list"

definition delete_all :: "listbox \<Rightarrow> listbox" where
  "delete_all lb = \<lparr>rows = 0, selected = []\<rparr>"

definition insert_end :: "listbox \<Rightarrow> listbox" where
  "insert_end lb = lb\<lparr>rows := Suc (rows lb)\<rparr>"

definition selection_clear_all :: "listbox \<Rightarrow> listbox" where
  "selection_clear_all lb = lb\<lparr>selected := []\<rparr>"

definition selection_set :: "nat \<Rightarrow> listbox \<Rightarrow> listbox" where
  "selection_set i lb =
     (if i < rows lb \<and> i \<notin> set (selected lb)
      then lb\<lparr>selected := insort i (selected lb)\<rparr>
      else lb)"

definition curselection :: "listbox \<Rightarrow> nat list" where
  "curselection lb = selected lb"


section \<open>The controller\<close>

text \<open>
  The fields of \<^verbatim>\<open>RPGSoundboard\<close> that the playback handlers read and write. The
  Playlist in \<open>current_playlist\<close> is the object the handlers mutate; the Library that shares
  it and the file are not part of this record, so the calls of \<^verbatim>\<open>save_data\<close>, which
  change neither field below, are left out of the handlers, as are the status line and the
  media player. \<^verbatim>\<open>random.shuffle\<close> is a parameter \<open>rnd\<close> of every handler that can
  reach it: it takes the list and returns the shuffled one.
\<close>

record app =
  current_playlist :: "Playlist option"
  current_track_index :: nat
  shuffle_mode :: bool
  shuffle_queue :: "nat list"
  tracks_list :: listbox

definition generate_shuffle_queue :: "(nat list \<Rightarrow> nat list) \<Rightarrow> app \<Rightarrow> app" where
  "generate_shuffle_queue rnd s =
     (case current_playlist s of
        None \<Rightarrow> s
      | Some p \<Rightarrow> s\<lparr>shuffle_queue := rnd [0..<length (tracks p)], current_track_index := 0\<rparr>)"

text \<open>\<^verbatim>\<open>toggle_shuffle\<close>; \<open>shuffle_var\<close> is the state of the check box.\<close>

definition toggle_shuffle :: "(nat list \<Rightarrow> nat list) \<Rightarrow> bool \<Rightarrow> app \<Rightarrow> app" where
  "toggle_shuffle rnd shuffle_var s =
     (let s1 = s\<lparr>shuffle_mode := shuffle_var\<rparr>
      in if shuffle_mode s1 \<and> current_playlist s1 \<noteq> None
         then generate_shuffle_queue rnd s1
         else s1)"

text \<open>
  \<^verbatim>\<open>track.start_time > 0\<close>: an integer or a boolean is compared with 0 (\<open>True\<close> counts
  as 1); \<open>None\<close>, a string, a list or a dictionary raises TypeError.
\<close>

definition greater_than_zero :: "json \<Rightarrow> error + bool" where
  "greater_than_zero v =
     (case v of
        JInt n \<Rightarrow> Inr (0 < n)
      | JBool b \<Rightarrow> Inr b
      | _ \<Rightarrow> Inl TypeError)"

text \<open>The values that comparison accepts.\<close>

definition numeric :: "json \<Rightarrow> bool" where
  "numeric v = (case v of JInt n \<Rightarrow> True | JBool b \<Rightarrow> True | _ \<Rightarrow> False)"

text \<open>
  The loop of \<^verbatim>\<open>load_playlist\<close> over the tracks: each round compares the start time
  with 0 to build the text of the row, then appends the row to the list box.
\<close>

fun insert_rows :: "Track list \<Rightarrow> listbox \<Rightarrow> error + listbox" where
  "insert_rows [] lb = Inr lb"
| "insert_rows (track # rest) lb =
     (case greater_than_zero (start_time track) of
        Inl e \<Rightarrow> Inl e
      | Inr positive \<Rightarrow> insert_rows rest (insert_end lb))"

text \<open>
  \<^verbatim>\<open>load_playlist\<close>: the playlist becomes the current one, the list box is emptied and
  filled with one row per track, and with shuffle on the queue is generated again. A start
  time that cannot be compared with 0 raises TypeError out of the loop.
\<close>

definition load_playlist ::
  "(nat list \<Rightarrow> nat list) \<Rightarrow> Playlist \<Rightarrow> app \<Rightarrow> error + app" where
  "load_playlist rnd playlist s =
     (case insert_rows (tracks playlist) (delete_all (tracks_list s)) of
        Inl e \<Rightarrow> Inl e
      | Inr lb \<Rightarrow>
          (let s1 = s\<lparr>current_playlist := Some playlist, tracks_list := lb\<rparr>
           in Inr (if shuffle_mode s1 then generate_shuffle_queue rnd s1 else s1)))"

text \<open>
  The index \<^verbatim>\<open>_play_track_thread\<close> computes, and the track it hands to the player:
  through the shuffle queue when shuffle is on and the queue is not empty, else directly.
\<close>

definition actual_index :: "app \<Rightarrow> error + nat" where
  "actual_index s =
     (if shuffle_mode s \<and> shuffle_queue s \<noteq> []
      then item (shuffle_queue s) (current_track_index s)
      else Inr (current_track_index s))"

definition play_track_thread :: "app \<Rightarrow> error + Track" where
  "play_track_thread s =
     (case actual_index s of
        Inl e \<Rightarrow> Inl e
      | Inr i \<Rightarrow>
          (case current_playlist s of
             None \<Rightarrow> Inl AttributeError
           | Some p \<Rightarrow> item (tracks p) i))"

text \<open>
  \<^verbatim>\<open>play_track\<close>: a selected row of the list box becomes the current index, then the
  thread of \<^verbatim>\<open>_play_track_thread\<close> is started.
\<close>

definition play_track :: "app \<Rightarrow> message + app" where
  "play_track s =
     (case current_playlist s of
        None \<Rightarrow> Inl No_tracks
      | Some p \<Rightarrow>
          if tracks p = [] then Inl No_tracks
          else (case curselection (tracks_list s) of
                  [] \<Rightarrow> Inr s
                | i # sel \<Rightarrow> Inr (s\<lparr>current_track_index := i\<rparr>)))"

text \<open>
  \<^verbatim>\<open>next_track\<close>. The modulo by the length of an empty queue raises ZeroDivisionError
  before anything is written; otherwise the new index is inside the queue, so reading the
  queue at it cannot fail.
\<close>

definition next_track :: "app \<Rightarrow> message + app" where
  "next_track s =
     (case current_playlist s of
        None \<Rightarrow> Inr s
      | Some p \<Rightarrow>
          if tracks p = [] then Inr s
          else if shuffle_mode s \<and> shuffle_queue s = [] then Inl (Unhandled ZeroDivisionError)
          else
            (let s1 = (if shuffle_mode s
                       then s\<lparr>current_track_index :=
                                (current_track_index s + 1) mod length (shuffle_queue s)\<rparr>
                       else s\<lparr>current_track_index :=
                                (current_track_index s + 1) mod length (tracks p)\<rparr>);
                 lb = selection_clear_all (tracks_list s1);
                 actual = (if shuffle_mode s1
                           then shuffle_queue s1 ! current_track_index s1
                           else current_track_index s1);
                 s2 = s1\<lparr>tracks_list := selection_set actual lb\<rparr>
             in play_track s2))"


text \<open>
  \<^verbatim>\<open>move_track_down\<close>: the guard \<^verbatim>\<open>idx >= len(tracks) - 1\<close> is over Python's
  integers (the right side is \<open>-1\<close> for an empty list); past it both rows of the swap exist.
  An exception of \<^verbatim>\<open>load_playlist\<close> leaves the handler after the swap.
\<close>

definition move_track_down :: "(nat list \<Rightarrow> nat list) \<Rightarrow> app \<Rightarrow> message + app" where
  "move_track_down rnd s =
     (case curselection (tracks_list s) of
        [] \<Rightarrow> Inl Select_track
      | idx # sel \<Rightarrow>
          (case current_playlist s of
             None \<Rightarrow> Inl (Unhandled AttributeError)
           | Some p \<Rightarrow>
               if int idx \<ge> int (length (tracks p)) - 1 then Inr s
               else (let ts = tracks p;
                         p1 = p\<lparr>tracks := ts[idx := ts ! (idx + 1), idx + 1 := ts ! idx]\<rparr>
                     in case load_playlist rnd p1 s of
                          Inl e \<Rightarrow> Inl (Unhandled e)
                        | Inr s1 \<Rightarrow>
                            Inr (s1\<lparr>tracks_list :=
                                     selection_set (idx + 1) (tracks_list s1)\<rparr>))))"


section \<open>Adding a track by its address\<close>

text \<open>
  \<^verbatim>\<open>_add_url_thread\<close>. The video back end is the parameter \<open>ydl\<close>: \<open>None\<close> when the
  import of \<^verbatim>\<open>yt_dlp\<close> failed, else the function \<^verbatim>\<open>extract_info\<close>, which returns
  the dictionary of the video or raises. Every exception of the body is caught and shown in
  an error box. The callback \<^verbatim>\<open>load_playlist\<close> that the thread schedules on the window
  is run at the end, outside the \<^verbatim>\<open>try\<close>: an exception of it is not caught, and the
  track is in the playlist by then.
\<close>

definition add_url_thread ::
  "(string \<Rightarrow> error + json) option \<Rightarrow> (nat list \<Rightarrow> nat list) \<Rightarrow> string \<Rightarrow> app \<Rightarrow> message + app" where
  "add_url_thread ydl rnd url0 s =
     (case ydl of
        None \<Rightarrow> Inl Ytdlp_missing
      | Some extract_info \<Rightarrow>
     (case (if CHR ''?'' \<in> set url0 then item (split_on CHR ''?'' url0) 0 else Inr url0) of
        Inl e \<Rightarrow> Inl (Add_url_failed e)
      | Inr url1 \<Rightarrow>
     (case extract_info url1 of
        Inl e \<Rightarrow> Inl (Add_url_failed e)
      | Inr info \<Rightarrow>
     (case dict_get info ''title'' (JStr (''Sem t'' @ [CHR 0xED] @ ''tulo'')) of
        Inl e \<Rightarrow> Inl (Add_url_failed e)
      | Inr t \<Rightarrow>
     (case dict_get info ''id'' (JStr []) of
        Inl e \<Rightarrow> Inl (Add_url_failed e)
      | Inr i \<Rightarrow>
     (case current_playlist s of
        None \<Rightarrow> Inl (Add_url_failed AttributeError)
      | Some p \<Rightarrow>
          (case load_playlist rnd
                  (add_track p \<lparr>title = t, url = JStr url1, video_id = i, start_time = JInt 0\<rparr>)
                  s of
             Inl e \<Rightarrow> Inl (Unhandled e)
           | Inr s1 \<Rightarrow> Inr s1)))))))"

text \<open>\<^verbatim>\<open>add_from_url\<close>; \<open>entry\<close> is the text of the address entry.\<close>

definition add_from_url ::
  "(string \<Rightarrow> error + json) option \<Rightarrow> (nat list \<Rightarrow> nat list) \<Rightarrow> string \<Rightarrow> app \<Rightarrow> message + app" where
  "add_from_url ydl rnd entry s =
     (case current_playlist s of
        None \<Rightarrow> Inl Select_playlist_first
      | Some p \<Rightarrow>
          (let url0 = strip entry
           in if url0 = [] then Inl Enter_url
              else if \<not> contains url0 ''youtube.com'' \<and> \<not> contains url0 ''youtu.be''
                   then Inl Url_not_youtube
                   else add_url_thread ydl rnd url0 s))"


section \<open>The Library and its document\<close>

text \<open>\<^verbatim>\<open>self.folders\<close>: the dictionary from folder names to lists of playlists.\<close>

type_synonym Library = "(string \<times> Playlist list) list"

text \<open>
  \<^verbatim>\<open>save_data\<close>: the value handed to \<^verbatim>\<open>json.dump\<close>. The text of the file is not
  modelled: \<^verbatim>\<open>json.load\<close> gives back the value \<^verbatim>\<open>json.dump\<close> wrote, for the values
  of type \<open>json\<close> here.
\<close>

definition save_data :: "Library \<Rightarrow> json" where
  "save_data fs =
     JObj (dict_of_items
             (map (\<lambda>kv. (fst kv, JArr (map Playlist_to_dict (snd kv)))) fs))"

text \<open>The file \<^verbatim>\<open>soundboard_data.json\<close>: absent, not readable as JSON, or a document.\<close>

datatype data_file = Missing | Unreadable | Document json

text \<open>The dict comprehension of \<^verbatim>\<open>load_data\<close>; only a dictionary has \<^verbatim>\<open>items()\<close>.\<close>

definition load_folders :: "json \<Rightarrow> error + Library" where
  "load_folders data =
     (case data of
        JObj d \<Rightarrow>
          (case comprehension
                  (\<lambda>kv. case iterate (snd kv) of
                           Inl e \<Rightarrow> Inl e
                         | Inr ps \<Rightarrow>
                             (case comprehension Playlist_from_dict ps of
                                Inl e \<Rightarrow> Inl e
                              | Inr playlists \<Rightarrow> Inr (fst kv, playlists)))
                  d of
             Inl e \<Rightarrow> Inl e
           | Inr kvs \<Rightarrow> Inr (dict_of_items kvs))
      | _ \<Rightarrow> Inl AttributeError)"

text \<open>
  \<^verbatim>\<open>load_data\<close>: without a file the folders stay as they are; any exception while
  reading or building leaves an empty Library.
\<close>

definition load_data :: "data_file \<Rightarrow> Library \<Rightarrow> Library" where
  "load_data file fs =
     (case file of
        Missing \<Rightarrow> fs
      | Unreadable \<Rightarrow> []
      | Document data \<Rightarrow> (case load_folders data of Inl e \<Rightarrow> [] | Inr loaded \<Rightarrow> loaded))"






section \<open>The fallback scrape of the embed page\<close>

text \<open>
  A scraped entry is the pair of the two groups of a match: the name and the artist.
  The loop that removes duplicates keeps the first entry of each key
  \<^verbatim>\<open>name|artist\<close>.
\<close>

type_synonym track_info = "string \<times> string"

fun unique_tracks :: "string set \<Rightarrow> track_info list \<Rightarrow> track_info list \<Rightarrow> track_info list" where
  "unique_tracks seen unique [] = unique"
| "unique_tracks seen unique (track # rest) =
     (let key = fst track @ ''|'' @ snd track
      in if key \<notin> seen
         then unique_tracks (insert key seen) (unique @ [track]) rest
         else unique_tracks seen unique rest)"

text \<open>
  \<^verbatim>\<open>_get_spotify_tracks_embed\<close>. The HTTP client and the regular expression engine are
  parameters: \<open>http_get\<close> returns the text of the page or raises, \<open>finditer\<close> returns the
  groups of the matches of the fixed pattern in a text. Every exception gives the empty list.
\<close>

definition get_spotify_tracks_embed ::
  "(string \<Rightarrow> error + string) \<Rightarrow> (string \<Rightarrow> track_info list) \<Rightarrow> string \<Rightarrow> track_info list" where
  "get_spotify_tracks_embed http_get finditer playlist_id =
     (case http_get (''https://open.spotify.com/embed/playlist/'' @ playlist_id) of
        Inl e \<Rightarrow> []
      | Inr page \<Rightarrow> take 50 (unique_tracks {} [] (finditer page)))"


section \<open>Sample data\<close>

definition sample_tracks :: "Track list" where
  "sample_tracks =
     [\<lparr>title = JStr ''Tavern'', url = JStr ''https://www.youtube.com/watch?v=aaa'',
       video_id = JStr ''aaa'', start_time = JInt 0\<rparr>,
      \<lparr>title = JStr ''Battle'', url = JStr ''https://www.youtube.com/watch?v=bbb'',
       video_id = JStr ''bbb'', start_time = JInt 42\<rparr>,
      \<lparr>title = JStr ''Forest'', url = JStr ''https://www.youtube.com/watch?v=ccc'',
       video_id = JStr ''ccc'', start_time = JInt 7\<rparr>]"

definition sample_playlist :: Playlist where
  "sample_playlist = \<lparr>name = JStr ''Session 1'', tracks = sample_tracks\<rparr>"

definition sample_library :: Library where
  "sample_library =
     [(''Campaign'', [sample_playlist, \<lparr>name = JStr ''Empty'', tracks = []\<rparr>]),
      (''One shots'', [])]"

definition sample_track_dict :: "(string \<times> json) list" where
  "sample_track_dict = [(''title'', JStr ''Tavern''), (''url'', JStr ''https://youtu.be/aaa'')]"

definition sample_app :: app where
  "sample_app =
     \<lparr>current_playlist = Some sample_playlist, current_track_index = 0,
      shuffle_mode = False, shuffle_queue = [],
      tracks_list = \<lparr>rows = 3, selected = [0]\<rparr>\<rparr>"

text \<open>
  Shuffle is on, the queue is the permutation 2, 0, 1 and the cursor is at its first place,
  so the track at index 2 is the one playing.
\<close>

definition sample_shuffled :: app where
  "sample_shuffled =
     \<lparr>current_playlist = Some sample_playlist, current_track_index = 0,
      shuffle_mode = True, shuffle_queue = [2, 0, 1],
      tracks_list = \<lparr>rows = 3, selected = [2]\<rparr>\<rparr>"

text \<open>A video back end that answers every address with the same dictionary.\<close>

definition sample_extract_info :: "string \<Rightarrow> error + json" where
  "sample_extract_info address = Inr (JObj [(''id'', JStr ''abc123''), (''title'', JStr ''Song'')])"


definition sample_matches :: "track_info list" where
  "sample_matches = map (\<lambda>i. ([char_of i], ''artist'')) [48..<108 :: nat]"

definition sample_http_get :: "string \<Rightarrow> error + string" where
  "sample_http_get address = Inr ''<html></html>''"

definition sample_finditer :: "string \<Rightarrow> track_info list" where
  "sample_finditer page = sample_matches"

text \<open>A video back end that resolves one address only and raises for every other.\<close>

definition sample_strict_extract_info :: "string \<Rightarrow> error + json" where
  "sample_strict_extract_info address =
     (if address = ''https://youtube.com/watch?v=abc123''
      then Inr (JObj [(''id'', JStr ''abc123''), (''title'', JStr ''Song'')])
      else Inl BackendError)"



section \<open>Dictionaries and comprehensions\<close>

lemma dict_set_fresh: "k \<notin> fst ` set d \<Longrightarrow> dict_set d k v = d @ [(k, v)]"
  by (induction d) auto

lemma foldl_dict_set_distinct:
  "distinct (map fst (acc @ xs)) \<Longrightarrow>
   foldl (\<lambda>d kv. dict_set d (fst kv) (snd kv)) acc xs = acc @ xs"
proof (induction xs arbitrary: acc)
  case Nil
  then show ?case by simp
next
  case (Cons kv xs)
  have fresh: "fst kv \<notin> fst ` set acc" using Cons.prems by auto
  have "distinct (map fst ((acc @ [kv]) @ xs))" using Cons.prems by simp
  from Cons.IH[OF this] fresh show ?case by (simp add: dict_set_fresh)
qed

lemma dict_of_items_distinct: "distinct (map fst xs) \<Longrightarrow> dict_of_items xs = xs"
  using foldl_dict_set_distinct[of "[]" xs] by (simp add: dict_of_items_def)

lemma comprehension_inverse:
  "(\<And>x. f (g x) = Inr x) \<Longrightarrow> comprehension f (map g xs) = Inr xs"
  by (induction xs) auto


section \<open>The document: round trip and defaults\<close>

lemma Track_roundtrip: "Track_from_dict (Track_to_dict t) = Inr t"
  by (simp add: Track_from_dict_def Track_to_dict_def subscript_def dict_get_def)

lemma Playlist_roundtrip: "Playlist_from_dict (Playlist_to_dict p) = Inr p"
proof -
  have "comprehension Track_from_dict (map Track_to_dict (tracks p)) = Inr (tracks p)"
    by (rule comprehension_inverse) (rule Track_roundtrip)
  then show ?thesis
    by (simp add: Playlist_from_dict_def Playlist_to_dict_def subscript_def dict_get_def
        iterate_def)
qed

lemma load_folders_save_data:
  assumes "distinct (map fst fs)"
  shows "load_folders (save_data fs) = Inr fs"
proof -
  let ?h = "\<lambda>kv. (fst kv, JArr (map Playlist_to_dict (snd kv)))"
  let ?F = "\<lambda>kv. case iterate (snd kv) of
                     Inl e \<Rightarrow> Inl e
                   | Inr ps \<Rightarrow>
                       (case comprehension Playlist_from_dict ps of
                          Inl e \<Rightarrow> Inl e
                        | Inr playlists \<Rightarrow> Inr (fst kv, playlists))"
  have keys: "map fst (map ?h fs) = map fst fs" by simp
  have doc: "save_data fs = JObj (map ?h fs)"
    using assms dict_of_items_distinct[of "map ?h fs"]
    by (simp add: save_data_def keys del: map_map)
  have one: "?F (?h kv) = Inr kv" for kv :: "string \<times> Playlist list"
  proof -
    have "comprehension Playlist_from_dict (map Playlist_to_dict (snd kv)) = Inr (snd kv)"
      by (rule comprehension_inverse) (rule Playlist_roundtrip)
    then show ?thesis by (simp add: iterate_def)
  qed
  have "comprehension ?F (map ?h fs) = Inr fs"
    by (rule comprehension_inverse) (rule one)
  then show ?thesis
    using assms by (simp add: doc load_folders_def dict_of_items_distinct)
qed

text \<open>
  Claim C2. For every Library, that is every dictionary of folders (its keys are distinct),
  loading the document that \<^verbatim>\<open>save_data\<close> wrote gives the Library back, whatever the
  folders were before: the same folder names in the same order, under each the same
  playlists in the same order, in each the same tracks in the same order with the same
  title, url, video_id and start_time.
\<close>

theorem save_load_roundtrip:
  assumes "distinct (map fst fs)"
  shows "load_data (Document (save_data fs)) old = fs"
  using load_folders_save_data[OF assms] by (simp add: load_data_def)

theorem save_load_roundtrip_witness:
  "distinct (map fst sample_library)
   \<and> load_data (Document (save_data sample_library)) [] = sample_library"
proof -
  have d: "distinct (map fst sample_library)" by (simp add: sample_library_def)
  from save_load_roundtrip[OF d, of "[]"] d show ?thesis by simp
qed

text \<open>
  Claim C8. Reading a track from a dictionary that has a title and a url keeps both as they
  are stored; a missing video_id becomes the empty string and a missing start_time becomes
  0, and a field that is present is kept.
\<close>

theorem Track_from_dict_defaults:
  assumes "map_of d ''title'' = Some t" and "map_of d ''url'' = Some u"
  shows "\<exists>r. Track_from_dict (JObj d) = Inr r \<and> title r = t \<and> url r = u
           \<and> (map_of d ''video_id'' = None \<longrightarrow> video_id r = JStr '''')
           \<and> (map_of d ''start_time'' = None \<longrightarrow> start_time r = JInt 0)
           \<and> (\<forall>v. map_of d ''video_id'' = Some v \<longrightarrow> video_id r = v)
           \<and> (\<forall>n. map_of d ''start_time'' = Some n \<longrightarrow> start_time r = n)"
  using assms
  by (auto simp: Track_from_dict_def subscript_def dict_get_def split: option.splits)

theorem Track_from_dict_defaults_witness:
  "\<exists>r. Track_from_dict (JObj sample_track_dict) = Inr r
       \<and> title r = JStr ''Tavern'' \<and> url r = JStr ''https://youtu.be/aaa''
       \<and> video_id r = JStr '''' \<and> start_time r = JInt 0"
proof -
  have t: "map_of sample_track_dict ''title'' = Some (JStr ''Tavern'')"
    and u: "map_of sample_track_dict ''url'' = Some (JStr ''https://youtu.be/aaa'')"
    and v: "map_of sample_track_dict ''video_id'' = None"
    and s: "map_of sample_track_dict ''start_time'' = None"
    by (simp_all add: sample_track_dict_def)
  from Track_from_dict_defaults[OF t u] v s show ?thesis by auto
qed


section \<open>Removing a track\<close>

text \<open>
  Claim C9. \<^verbatim>\<open>Playlist.remove_track\<close> never raises. For an index inside the list it
  removes exactly the track there: the list is one shorter, the tracks before the index
  stay where they are and the tracks after it move up by one. For every other index,
  negative ones included, the playlist is unchanged.
\<close>

theorem remove_track_in_and_out_of_range:
  "(0 \<le> i \<and> i < int (length (tracks p)) \<longrightarrow>
      (\<exists>q. remove_track p i = Inr q \<and> name q = name p
         \<and> length (tracks q) + 1 = length (tracks p)
         \<and> (\<forall>j. j < nat i \<longrightarrow> tracks q ! j = tracks p ! j)
         \<and> (\<forall>j. nat i \<le> j \<and> j < length (tracks q) \<longrightarrow> tracks q ! j = tracks p ! (j + 1))))
   \<and> (\<not> (0 \<le> i \<and> i < int (length (tracks p))) \<longrightarrow> remove_track p i = Inr p)"
  by (auto simp: remove_track_def pop_def nth_append min_def)

theorem remove_track_in_and_out_of_range_witness:
  "(\<exists>q. remove_track sample_playlist 1 = Inr q \<and> name q = name sample_playlist
       \<and> length (tracks q) = 2
       \<and> tracks q ! 0 = tracks sample_playlist ! 0
       \<and> tracks q ! 1 = tracks sample_playlist ! 2)
   \<and> remove_track sample_playlist 3 = Inr sample_playlist
   \<and> remove_track sample_playlist (- 1) = Inr sample_playlist"
proof -
  have len: "length (tracks sample_playlist) = 3"
    by (simp add: sample_playlist_def sample_tracks_def)
  have inside: "0 \<le> (1::int) \<and> (1::int) < int (length (tracks sample_playlist))"
    using len by simp
  from remove_track_in_and_out_of_range[of 1 sample_playlist] inside
  obtain q where q: "remove_track sample_playlist 1 = Inr q" "name q = name sample_playlist"
      "length (tracks q) + 1 = length (tracks sample_playlist)"
      "\<forall>j. j < nat 1 \<longrightarrow> tracks q ! j = tracks sample_playlist ! j"
      "\<forall>j. nat 1 \<le> j \<and> j < length (tracks q) \<longrightarrow> tracks q ! j = tracks sample_playlist ! (j + 1)"
    by blast
  from q(3) len have l2: "length (tracks q) = 2" by simp
  from q(4) have a: "tracks q ! 0 = tracks sample_playlist ! 0" by simp
  from q(5)[rule_format, of 1] l2 have b: "tracks q ! 1 = tracks sample_playlist ! 2"
    by (simp add: numeral_2_eq_2)
  have c: "remove_track sample_playlist 3 = Inr sample_playlist"
    using remove_track_in_and_out_of_range[of 3 sample_playlist] len by simp
  have d: "remove_track sample_playlist (- 1) = Inr sample_playlist"
    using remove_track_in_and_out_of_range[of "- 1" sample_playlist] by simp
  from q(1,2) l2 a b c d show ?thesis by blast
qed


section \<open>The list box and the shuffle queue\<close>


lemma insert_rows_not_numeric:
  "\<exists>t\<in>set ts. \<not> numeric (start_time t) \<Longrightarrow> insert_rows ts lb = Inl TypeError"
proof (induction ts arbitrary: lb)
  case Nil
  then show ?case by simp
next
  case (Cons t ts)
  show ?case
  proof (cases "numeric (start_time t)")
    case True
    then obtain b where "greater_than_zero (start_time t) = Inr b"
      by (cases "start_time t") (simp_all add: numeric_def greater_than_zero_def)
    moreover from True Cons.prems have "\<exists>t\<in>set ts. \<not> numeric (start_time t)" by auto
    ultimately show ?thesis using Cons.IH[of "insert_end lb"] by simp
  next
    case False
    then have "greater_than_zero (start_time t) = Inl TypeError"
      by (cases "start_time t") (simp_all add: numeric_def greater_than_zero_def)
    then show ?thesis by simp
  qed
qed


lemma load_playlist_not_numeric:
  "\<exists>t\<in>set (tracks pl). \<not> numeric (start_time t) \<Longrightarrow> load_playlist rnd pl s = Inl TypeError"
  by (simp add: load_playlist_def insert_rows_not_numeric)

text \<open>
  Claim C3, as amended. Turning shuffle off writes \<open>shuffle_mode\<close> and nothing else: the
  current index keeps its value, which was a place in the shuffle queue, and from then on
  is read as an index into the playlist.
\<close>

theorem toggle_shuffle_off_keeps_cursor:
  "toggle_shuffle rnd False s = s\<lparr>shuffle_mode := False\<rparr>
   \<and> current_track_index (toggle_shuffle rnd False s) = current_track_index s
   \<and> actual_index (toggle_shuffle rnd False s) = Inr (current_track_index s)"
  by (simp add: toggle_shuffle_def actual_index_def Let_def)

text \<open>
  Claim C3 as stated fails: with the queue 2, 0, 1 and the cursor at its first place the
  track playing is the one at index 2 of the playlist, and after shuffle is turned off the
  current index is 0.
\<close>

theorem toggle_shuffle_off_counterexample:
  "shuffle_mode sample_shuffled
   \<and> actual_index sample_shuffled = Inr 2
   \<and> current_track_index (toggle_shuffle rev False sample_shuffled) = 0
   \<and> actual_index (toggle_shuffle rev False sample_shuffled) = Inr 0"
  by (simp add: sample_shuffled_def toggle_shuffle_def actual_index_def item_def Let_def)

text \<open>
  Claim C4. \<^verbatim>\<open>random.shuffle\<close> returns a permutation of the list it is given. With a
  playlist of \<open>n\<close> tracks loaded, turning shuffle on from any state leaves a queue that
  holds every index below \<open>n\<close> exactly once, and the cursor at place 0.
\<close>

theorem toggle_shuffle_on_permutation:
  assumes "\<forall>xs. mset (rnd xs) = mset xs" and "current_playlist s = Some p"
  shows "mset (shuffle_queue (toggle_shuffle rnd True s)) = mset [0..<length (tracks p)]
       \<and> distinct (shuffle_queue (toggle_shuffle rnd True s))
       \<and> set (shuffle_queue (toggle_shuffle rnd True s)) = {0..<length (tracks p)}
       \<and> length (shuffle_queue (toggle_shuffle rnd True s)) = length (tracks p)
       \<and> current_track_index (toggle_shuffle rnd True s) = 0
       \<and> shuffle_mode (toggle_shuffle rnd True s)"
proof -
  let ?n = "length (tracks p)"
  have q: "shuffle_queue (toggle_shuffle rnd True s) = rnd [0..<?n]"
    and c: "current_track_index (toggle_shuffle rnd True s) = 0"
    and m: "shuffle_mode (toggle_shuffle rnd True s)"
    using assms(2) by (simp_all add: toggle_shuffle_def generate_shuffle_queue_def Let_def)
  have ms: "mset (rnd [0..<?n]) = mset [0..<?n]" using assms(1) by blast
  have d: "distinct (rnd [0..<?n])"
    using ms by (metis distinct_upt mset_eq_imp_distinct_iff)
  have st: "set (rnd [0..<?n]) = {0..<?n}"
    using ms by (metis mset_eq_setD set_upt)
  have ln: "length (rnd [0..<?n]) = ?n"
    using ms by (metis mset_eq_length length_upt diff_zero)
  from q c m ms d st ln show ?thesis by simp
qed

theorem toggle_shuffle_on_permutation_witness:
  "(\<forall>xs :: nat list. mset (rev xs) = mset xs)
   \<and> current_playlist sample_app = Some sample_playlist
   \<and> shuffle_queue (toggle_shuffle rev True sample_app) = [2, 1, 0]
   \<and> mset (shuffle_queue (toggle_shuffle rev True sample_app)) = mset [0..<3]
   \<and> current_track_index (toggle_shuffle rev True sample_app) = 0"
proof -
  have a: "\<forall>xs :: nat list. mset (rev xs) = mset xs" by simp
  have b: "current_playlist sample_app = Some sample_playlist" by (simp add: sample_app_def)
  have n: "length (tracks sample_playlist) = 3"
    by (simp add: sample_playlist_def sample_tracks_def)
  have q: "shuffle_queue (toggle_shuffle rev True sample_app) = [2, 1, 0]"
    by (simp add: toggle_shuffle_def generate_shuffle_queue_def Let_def sample_app_def n
        upt_rec numeral_3_eq_3)
  from toggle_shuffle_on_permutation[OF a b] n a b q show ?thesis by simp
qed


section \<open>Next track\<close>

text \<open>
  With shuffle off, \<^verbatim>\<open>next_track\<close> on a playlist that is not empty leaves the index one
  further, modulo the length of the playlist: the row it selects is the row of the new
  index, so \<^verbatim>\<open>play_track\<close> writes the same index again, or finds no row selected.
\<close>

lemma next_track_sequential:
  assumes "current_playlist s = Some p" and "tracks p \<noteq> []" and "\<not> shuffle_mode s"
  shows "\<exists>s'. next_track s = Inr s'
           \<and> current_track_index s' = (current_track_index s + 1) mod length (tracks p)"
  using assms
  by (auto simp: next_track_def play_track_def Let_def curselection_def selection_set_def
      selection_clear_all_def split: list.splits)

text \<open>
  With shuffle on, a queue that is not empty and the list box showing the row, the handler
  leaves in the current index not the next place of the queue but the entry of the queue at
  that place: \<^verbatim>\<open>play_track\<close> copies the row just selected, which is a real index.
\<close>

lemma next_track_shuffled:
  assumes "current_playlist s = Some p" and "tracks p \<noteq> []"
      and "shuffle_mode s" and "shuffle_queue s \<noteq> []"
      and "shuffle_queue s ! ((current_track_index s + 1) mod length (shuffle_queue s))
             < rows (tracks_list s)"
  shows "\<exists>s'. next_track s = Inr s'
           \<and> current_track_index s'
               = shuffle_queue s ! ((current_track_index s + 1) mod length (shuffle_queue s))"
  using assms
  by (simp add: next_track_def play_track_def Let_def curselection_def selection_set_def
      selection_clear_all_def)

text \<open>
  Claim C5, at a state where the code does not do what the claim says. Shuffle is on, the
  queue is 2, 0, 1 and the cursor is at place 0; the claim gives the cursor (0 + 1) mod 3 = 1
  after \<^verbatim>\<open>next_track\<close>. The handler writes 1, selects row \<open>queue[1] = 0\<close> of the list
  box and calls \<^verbatim>\<open>play_track\<close>, which writes the selected row, 0, over the cursor. The
  thread then plays \<open>tracks[queue[0]]\<close>, the track that was playing before.
\<close>

theorem next_track_shuffled_evaluation:
  "next_track sample_shuffled
     = Inr (sample_shuffled\<lparr>current_track_index := 0, tracks_list := \<lparr>rows = 3, selected = [0]\<rparr>\<rparr>)
   \<and> (current_track_index sample_shuffled + 1) mod length (shuffle_queue sample_shuffled) = 1
   \<and> play_track_thread sample_shuffled = Inr (sample_tracks ! 2)
   \<and> play_track_thread
         (sample_shuffled\<lparr>current_track_index := 0, tracks_list := \<lparr>rows = 3, selected = [0]\<rparr>\<rparr>)
       = Inr (sample_tracks ! 2)"
  by (simp add: next_track_def play_track_def Let_def curselection_def selection_set_def
      selection_clear_all_def sample_shuffled_def sample_playlist_def sample_tracks_def
      play_track_thread_def actual_index_def item_def)

section \<open>Moving a track\<close>


lemma set_swapped:
  assumes "Suc i < length ts"
  shows "set (ts[i := ts ! Suc i, Suc i := ts ! i]) = set ts"
  using assms set_swap[of i ts "Suc i"] by simp




text \<open>
  With a start time that is not a number somewhere in the playlist, the handler swaps and
  then raises out of \<^verbatim>\<open>load_playlist\<close>.
\<close>

lemma move_track_down_raises:
  assumes "current_playlist s = Some p"
      and "curselection (tracks_list s) = idx # sel"
      and "Suc idx < length (tracks p)"
      and "\<exists>t\<in>set (tracks p). \<not> numeric (start_time t)"
  shows "move_track_down rnd s = Inl (Unhandled TypeError)"
proof -
  let ?ts = "tracks p"
  let ?p1 = "p\<lparr>tracks := ?ts[idx := ?ts ! Suc idx, Suc idx := ?ts ! idx]\<rparr>"
  have "\<exists>t\<in>set (tracks ?p1). \<not> numeric (start_time t)"
    using assms(4) set_swapped[OF assms(3)] by simp
  then have "load_playlist rnd ?p1 s = Inl TypeError"
    by (rule load_playlist_not_numeric)
  moreover have "\<not> int idx \<ge> int (length ?ts) - 1" using assms(3) by linarith
  ultimately show ?thesis
    using assms(1,2) by (simp add: move_track_down_def Let_def)
qed


section \<open>The stored address\<close>

lemma strip_sample:
  "strip ''https://youtube.com/watch?v=abc123?extra=1''
     = ''https://youtube.com/watch?v=abc123?extra=1''"
  by (simp add: strip_def isspace_def)

lemma contains_sample: "contains ''https://youtube.com/watch?v=abc123?extra=1'' ''youtube.com''"
  by simp

lemma add_from_url_sample:
  "current_playlist s = Some p \<Longrightarrow>
   add_from_url ydl rnd ''https://youtube.com/watch?v=abc123?extra=1'' s
     = add_url_thread ydl rnd ''https://youtube.com/watch?v=abc123?extra=1'' s"
  by (simp only: add_from_url_def strip_sample contains_sample Let_def option.case) simp

text \<open>
  Whatever the back end, \<^verbatim>\<open>_add_url_thread\<close> asks it to resolve the address cut before
  the first question mark: when that address does not resolve, nothing is stored.
\<close>

lemma add_url_thread_resolves_cut_address:
  assumes "extract_info ''https://youtube.com/watch'' = Inl e"
  shows "add_url_thread (Some extract_info) rnd
           ''https://youtube.com/watch?v=abc123?extra=1'' s = Inl (Add_url_failed e)"
  using assms by (simp add: add_url_thread_def item_def)

text \<open>
  Claim C1, at its own input, where the code does not do what the claim says. Given
  \<^verbatim>\<open>https://youtube.com/watch?v=abc123?extra=1\<close> with a playlist loaded, the address
  handed to the back end and stored in the track is \<^verbatim>\<open>https://youtube.com/watch\<close>:
  the cut at the first question mark takes the video's \<^verbatim>\<open>v=abc123\<close> away with the
  rest. With a back end that answers every address the track is stored under the cut
  address; with one that resolves \<^verbatim>\<open>https://youtube.com/watch?v=abc123\<close> and nothing
  else, the request fails and no track is stored.
\<close>

theorem add_from_url_evaluation:
  "add_from_url (Some sample_extract_info) rev
     ''https://youtube.com/watch?v=abc123?extra=1'' sample_app
   = Inr (sample_app
            \<lparr>current_playlist := Some (sample_playlist
                \<lparr>tracks := sample_tracks @
                   [\<lparr>title = JStr ''Song'', url = JStr ''https://youtube.com/watch'',
                     video_id = JStr ''abc123'', start_time = JInt 0\<rparr>]\<rparr>),
             tracks_list := \<lparr>rows = 4, selected = []\<rparr>\<rparr>)
   \<and> JStr ''https://youtube.com/watch'' \<noteq> JStr ''https://youtube.com/watch?v=abc123''
   \<and> sample_strict_extract_info ''https://youtube.com/watch?v=abc123''
       = Inr (JObj [(''id'', JStr ''abc123''), (''title'', JStr ''Song'')])
   \<and> add_from_url (Some sample_strict_extract_info) rev
        ''https://youtube.com/watch?v=abc123?extra=1'' sample_app
       = Inl (Add_url_failed BackendError)"
proof -
  have cur: "current_playlist sample_app = Some sample_playlist" by (simp add: sample_app_def)
  have thread: "add_url_thread (Some sample_extract_info) rev
                  ''https://youtube.com/watch?v=abc123?extra=1'' sample_app
      = Inr (sample_app
            \<lparr>current_playlist := Some (sample_playlist
                \<lparr>tracks := sample_tracks @
                   [\<lparr>title = JStr ''Song'', url = JStr ''https://youtube.com/watch'',
                     video_id = JStr ''abc123'', start_time = JInt 0\<rparr>]\<rparr>),
             tracks_list := \<lparr>rows = 4, selected = []\<rparr>\<rparr>)"
    by (simp add: add_url_thread_def item_def dict_get_def sample_extract_info_def
        sample_app_def load_playlist_def add_track_def sample_playlist_def insert_end_def
        delete_all_def sample_tracks_def greater_than_zero_def)
  have strict: "add_url_thread (Some sample_strict_extract_info) rev
                  ''https://youtube.com/watch?v=abc123?extra=1'' sample_app
      = Inl (Add_url_failed BackendError)"
    by (rule add_url_thread_resolves_cut_address) (simp add: sample_strict_extract_info_def)
  have resolves: "sample_strict_extract_info ''https://youtube.com/watch?v=abc123''
       = Inr (JObj [(''id'', JStr ''abc123''), (''title'', JStr ''Song'')])"
    by (simp add: sample_strict_extract_info_def)
  show ?thesis
    unfolding add_from_url_sample[OF cur]
    using thread strict resolves by simp
qed


section \<open>Creating a playlist\<close>









section \<open>The fallback scrape\<close>

text \<open>
  Claim C10. Whatever the page and whatever the matches, the fallback scrape returns at
  most 50 entries: none when the request raises, else the first 50 of the entries left
  after the duplicates are removed, or all of them when there are fewer.
\<close>

theorem get_spotify_tracks_embed_at_most_50:
  "length (get_spotify_tracks_embed http_get finditer playlist_id) \<le> 50
   \<and> length (get_spotify_tracks_embed http_get finditer playlist_id)
       = (case http_get (''https://open.spotify.com/embed/playlist/'' @ playlist_id) of
            Inl e \<Rightarrow> 0
          | Inr page \<Rightarrow> min 50 (length (unique_tracks {} [] (finditer page))))"
  by (simp add: get_spotify_tracks_embed_def min.commute split: sum.splits)

lemma sample_matches_unique: "length (unique_tracks {} [] sample_matches) = 60"
  unfolding sample_matches_def by code_simp

theorem get_spotify_tracks_embed_at_most_50_witness:
  "length (unique_tracks {} [] (sample_finditer ''<html></html>'')) = 60
   \<and> length (get_spotify_tracks_embed sample_http_get sample_finditer ''37i9dQZF1DX'') = 50"
  using get_spotify_tracks_embed_at_most_50[of sample_http_get sample_finditer "''37i9dQZF1DX''"]
    sample_matches_unique
  by (simp add: sample_http_get_def sample_finditer_def)

end
